theory Spec2Isabelle
  imports Complex_Main
begin

section \<open>Python values and exceptions\<close>

text \<open>
  The repository is Python. Its floating-point numbers are modelled as \<^typ>\<open>real\<close>
  (exact arithmetic: no rounding, no infinities, no NaN). Every \<^verbatim>\<open>raise\<close> of the
  modelled code is a value \<open>Inl e\<close> of the result type \<open>exn + 'a\<close>.
\<close>

datatype exn =
    KeyError string
  | ValueError string
  | TypeError string
  | IndexError string
  | AttributeError string
  | ZeroDivisionError
  | JSONDecodeError string
  | UnicodeDecodeError string
  | OtherException string

text \<open>Sequencing of calls that may raise: the first exception propagates.\<close>

definition and_then :: "exn + 'a \<Rightarrow> ('a \<Rightarrow> exn + 'b) \<Rightarrow> exn + 'b" where
  "and_then m f = (case m of Inl e \<Rightarrow> Inl e | Inr x \<Rightarrow> f x)"

text \<open>Python's true division \<^verbatim>\<open>a / b\<close> on numbers raises on a zero divisor.\<close>

definition py_div :: "real \<Rightarrow> real \<Rightarrow> exn + real" where
  "py_div a b = (if b = 0 then Inl ZeroDivisionError else Inr (a / b))"

text \<open>\<^verbatim>\<open>d.get(k, default)\<close> and \<^verbatim>\<open>d[k]\<close> on a dictionary.\<close>

definition dict_get :: "(string \<rightharpoonup> 'v) \<Rightarrow> string \<Rightarrow> 'v \<Rightarrow> 'v" where
  "dict_get d k dflt = (case d k of None \<Rightarrow> dflt | Some v \<Rightarrow> v)"

definition dict_item :: "(string \<rightharpoonup> 'v) \<Rightarrow> string \<Rightarrow> exn + 'v" where
  "dict_item d k = (case d k of None \<Rightarrow> Inl (KeyError k) | Some v \<Rightarrow> Inr v)"

text \<open>Python's \<^verbatim>\<open>max(xs)\<close> and \<^verbatim>\<open>min(xs)\<close> on a non-empty list.\<close>

definition py_max :: "real list \<Rightarrow> real" where
  "py_max xs = foldl max (hd xs) (tl xs)"

definition py_min :: "real list \<Rightarrow> real" where
  "py_min xs = foldl min (hd xs) (tl xs)"

section \<open>Candlestick patterns (add\_patterns\_to\_existing\_data.py)\<close>

text \<open>
  A candle is the dictionary \<^verbatim>\<open>{open, high, low, close, volume}\<close>; the token context is
  a dictionary of which only \<^verbatim>\<open>liquidity\<close> is read (through \<^verbatim>\<open>.get\<close>).
\<close>

record candle =
  c_open :: real
  c_high :: real
  c_low :: real
  c_close :: real
  c_volume :: real

record patterns =
  has_bullish_pin :: bool
  has_bearish_pin :: bool
  has_bullish_engulfing :: bool
  has_bearish_engulfing :: bool
  wick_rejection_ratio :: real
  body_to_range_ratio :: real
  pattern_confidence :: real
  context_score :: real

text \<open>
  \<^verbatim>\<open>calculate_context_score\<close>: the trend term divides by the first close of the last
  twenty candles without a guard; the position term is guarded by
  \<^verbatim>\<open>recent_high != recent_low\<close>.
\<close>

definition trend_term :: "candle list \<Rightarrow> exn + real" where
  "trend_term candles =
     (if length candles \<ge> 20 then
        (let recent_candles = drop (length candles - 20) candles;
             first_price = c_close (hd recent_candles);
             last_price = c_close (last recent_candles)
         in and_then (py_div (last_price - first_price) first_price) (\<lambda>q.
              let price_change = q * 100
              in Inr (if price_change > 10 then 0.30
                      else if price_change > 0 then 0.15
                      else if price_change < - 10 then 0.10
                      else 0)))
      else Inr 0)"

definition position_term :: "candle list \<Rightarrow> real" where
  "position_term candles =
     (if length candles \<ge> 20 then
        (let recent_candles = drop (length candles - 20) candles;
             recent_high = py_max (map c_high recent_candles);
             recent_low = py_min (map c_low recent_candles);
             current_price = c_close (last candles)
         in if recent_high \<noteq> recent_low then
              (let price_position = (current_price - recent_low) / (recent_high - recent_low)
               in if price_position < 0.20 then 0.25
                  else if price_position > 0.90 then 0.20
                  else 0)
            else 0)
      else 0)"

definition liquidity_term :: "(string \<rightharpoonup> real) \<Rightarrow> real" where
  "liquidity_term token_context =
     (let liquidity = dict_get token_context ''liquidity'' 0
      in if liquidity > 500000 then 0.20
         else if liquidity > 100000 then 0.10
         else 0)"

definition calculate_context_score :: "candle list \<Rightarrow> (string \<rightharpoonup> real) \<Rightarrow> exn + real" where
  "calculate_context_score candles token_context =
     and_then (trend_term candles) (\<lambda>t.
       let score = 0 + t;
           score = score + position_term candles;
           score = score + liquidity_term token_context
       in Inr (min score 1.0))"

text \<open>The per-candle metrics of \<^verbatim>\<open>detect_candlestick_patterns\<close>.\<close>

definition body_of :: "candle \<Rightarrow> real" where
  "body_of c = \<bar>c_close c - c_open c\<bar>"

definition upper_wick_of :: "candle \<Rightarrow> real" where
  "upper_wick_of c = c_high c - max (c_close c) (c_open c)"

definition lower_wick_of :: "candle \<Rightarrow> real" where
  "lower_wick_of c = min (c_close c) (c_open c) - c_low c"

definition total_range_of :: "candle \<Rightarrow> real" where
  "total_range_of c = c_high c - c_low c"

definition pin_confidence :: "real \<Rightarrow> real \<Rightarrow> real" where
  "pin_confidence wick total_range =
     (let wick_strength = (if total_range > 0 then (wick / total_range) * 100 else 0)
      in min (60 + wick_strength * 0.3) 80 / 100)"

definition default_patterns :: patterns where
  "default_patterns =
     \<lparr>has_bullish_pin = False, has_bearish_pin = False,
      has_bullish_engulfing = False, has_bearish_engulfing = False,
      wick_rejection_ratio = 0, body_to_range_ratio = 0,
      pattern_confidence = 0, context_score = 0\<rparr>"

definition detect_candlestick_patterns ::
    "candle list \<Rightarrow> (string \<rightharpoonup> real) \<Rightarrow> exn + patterns" where
  "detect_candlestick_patterns candles context =
     (if length candles < 2 then Inr default_patterns
      else
        let last_candle = last candles;
            prev_candle = candles ! (length candles - 2);
            body = body_of last_candle;
            upper_wick = upper_wick_of last_candle;
            lower_wick = lower_wick_of last_candle;
            total_range = total_range_of last_candle;
            is_bullish = (c_close last_candle > c_open last_candle);
            is_bearish = (c_close last_candle < c_open last_candle);
            body_to_range = (if total_range > 0 then body / total_range else 0);
            wick_rejection = (if body > 0 then max upper_wick lower_wick / body else 0);
            MIN_WICK_TO_BODY_RATIO = 2.0;
            pattern_conf = 0;
            bullish_pin = (lower_wick > body * MIN_WICK_TO_BODY_RATIO \<and> is_bullish);
            pattern_conf = (if bullish_pin
                            then max pattern_conf (pin_confidence lower_wick total_range)
                            else pattern_conf);
            bearish_pin = (upper_wick > body * MIN_WICK_TO_BODY_RATIO \<and> is_bearish);
            pattern_conf = (if bearish_pin
                            then max pattern_conf (pin_confidence upper_wick total_range)
                            else pattern_conf);
            prev_body = body_of prev_candle;
            engulfs_previous = (body > prev_body * 0.6);
            bullish_engulfing = (is_bullish \<and> engulfs_previous \<and> body_to_range > 0.6);
            pattern_conf = (if bullish_engulfing then max pattern_conf 0.65 else pattern_conf);
            bearish_engulfing = (is_bearish \<and> engulfs_previous \<and> body_to_range > 0.6);
            pattern_conf = (if bearish_engulfing then max pattern_conf 0.65 else pattern_conf)
        in and_then (calculate_context_score candles context) (\<lambda>score.
             Inr \<lparr>has_bullish_pin = bullish_pin, has_bearish_pin = bearish_pin,
                  has_bullish_engulfing = bullish_engulfing,
                  has_bearish_engulfing = bearish_engulfing,
                  wick_rejection_ratio = min wick_rejection 10,
                  body_to_range_ratio = body_to_range,
                  pattern_confidence = pattern_conf,
                  context_score = score\<rparr>))"

section \<open>Structured documents and scalers\<close>

text \<open>
  A parsed JSON document, as \<^verbatim>\<open>json.load\<close> returns it. An object keeps its members
  as an association list, read with \<open>map_of\<close>.
\<close>

datatype json =
    JNull
  | JBool bool
  | JNum real
  | JStr string
  | JArr "json list"
  | JObj "(string \<times> json) list"

text \<open>\<^verbatim>\<open>v[key]\<close> with a string key.\<close>

fun py_getitem :: "json \<Rightarrow> string \<Rightarrow> exn + json" where
  "py_getitem (JObj kvs) k =
     (case map_of kvs k of None \<Rightarrow> Inl (KeyError k) | Some v \<Rightarrow> Inr v)"
| "py_getitem (JArr xs) k = Inl (TypeError ''list indices must be integers or slices, not str'')"
| "py_getitem (JStr s) k = Inl (TypeError ''string indices must be integers'')"
| "py_getitem v k = Inl (TypeError ''object is not subscriptable'')"

fun as_number :: "json \<Rightarrow> exn + real" where
  "as_number (JNum r) = Inr r"
| "as_number (JBool b) = Inr (if b then 1 else 0)"
| "as_number v = Inl (TypeError ''unsupported operand type(s)'')"

text \<open>A loop body that may raise, run over a list: the first exception ends the loop.\<close>

fun collect :: "('a \<Rightarrow> exn + 'b) \<Rightarrow> 'a list \<Rightarrow> exn + 'b list" where
  "collect f [] = Inr []"
| "collect f (x # xs) =
     and_then (f x) (\<lambda>y. and_then (collect f xs) (\<lambda>ys. Inr (y # ys)))"

text \<open>
  The two scaler objects of scikit-learn with the attributes the repository reads:
  a \<^verbatim>\<open>RobustScaler\<close> has \<^verbatim>\<open>center_\<close>, \<^verbatim>\<open>scale_\<close>, \<^verbatim>\<open>n_features_in_\<close>; a
  \<^verbatim>\<open>StandardScaler\<close> has \<^verbatim>\<open>mean_\<close>, \<^verbatim>\<open>scale_\<close>, \<^verbatim>\<open>var_\<close>, \<^verbatim>\<open>n_features_in_\<close>.
\<close>

datatype scaler =
    RobustScaler (center: "real list") (scale: "real list") (n_features_in: nat)
  | StandardScaler (mean: "real list") (scale: "real list") (var: "real list")
      (n_features_in: nat)

definition location :: "scaler \<Rightarrow> real list" where
  "location s = (case s of RobustScaler c _ _ \<Rightarrow> c | StandardScaler m _ _ _ \<Rightarrow> m)"

text \<open>
  \<^verbatim>\<open>scaler.transform(X)\<close> is library code: it rejects an empty array and a feature count
  other than the recorded one, then subtracts the centre (mean) and divides by the scale,
  feature by feature. This is the arithmetic that convert\_scalers.py documents for
  consumers of the exported file.
\<close>

definition transform_row :: "scaler \<Rightarrow> real list \<Rightarrow> real list" where
  "transform_row s row =
     map (\<lambda>(x, c, sd). (x - c) / sd) (zip row (zip (location s) (scale s)))"

definition transform :: "scaler \<Rightarrow> real list list \<Rightarrow> exn + real list list" where
  "transform s X =
     (if X = [] then Inl (ValueError ''Found array with 0 sample(s)'')
      else if \<not> list_all (\<lambda>row. length row = n_features_in s) X
        then Inl (ValueError ''X has a different number of features than the scaler expects'')
      else if length (location s) \<noteq> n_features_in s \<or> length (scale s) \<noteq> n_features_in s
        then Inl (ValueError ''operands could not be broadcast together'')
      else Inr (map (transform_row s) X))"

text \<open>
  Fitting is library code as well. \<^verbatim>\<open>StandardScaler.fit\<close> records per column the mean,
  the population variance and its square root; \<^verbatim>\<open>RobustScaler.fit\<close> records the median
  and the distance between the 25th and 75th percentiles (linear interpolation). A scale
  of exactly zero is replaced by one. Both reject an array without rows.
\<close>

definition handle_zeros_in_scale :: "real \<Rightarrow> real" where
  "handle_zeros_in_scale s = (if s = 0 then 1 else s)"

definition columns :: "real list list \<Rightarrow> real list list" where
  "columns X = map (\<lambda>j. map (\<lambda>row. row ! j) X) [0..<length (hd X)]"

definition column_mean :: "real list \<Rightarrow> real" where
  "column_mean col = sum_list col / real (length col)"

definition column_var :: "real list \<Rightarrow> real" where
  "column_var col =
     sum_list (map (\<lambda>x. (x - column_mean col)\<^sup>2) col) / real (length col)"

definition median :: "real list \<Rightarrow> real" where
  "median col =
     (let s = sort col; n = length s
      in if n mod 2 = 1 then s ! (n div 2)
         else (s ! (n div 2 - 1) + s ! (n div 2)) / 2)"

definition percentile :: "real list \<Rightarrow> nat \<Rightarrow> real" where
  "percentile col q =
     (let s = sort col; n = length s;
          pos = q * (n - 1);
          lo = pos div 100;
          hi = min (lo + 1) (n - 1);
          frac = real (pos mod 100) / 100
      in s ! lo + frac * (s ! hi - s ! lo))"

definition standard_fit :: "real list list \<Rightarrow> exn + scaler" where
  "standard_fit X =
     (if X = [] then Inl (ValueError ''Found array with 0 sample(s)'')
      else Inr (StandardScaler
                  (map column_mean (columns X))
                  (map (\<lambda>col. handle_zeros_in_scale (sqrt (column_var col))) (columns X))
                  (map column_var (columns X))
                  (length (hd X))))"

definition robust_fit :: "real list list \<Rightarrow> exn + scaler" where
  "robust_fit X =
     (if X = [] then Inl (ValueError ''Found array with 0 sample(s)'')
      else Inr (RobustScaler
                  (map median (columns X))
                  (map (\<lambda>col. handle_zeros_in_scale (percentile col 75 - percentile col 25))
                     (columns X))
                  (length (hd X))))"

definition fit_transform ::
    "(real list list \<Rightarrow> exn + scaler) \<Rightarrow> real list list \<Rightarrow> exn + scaler \<times> real list list" where
  "fit_transform fit X =
     and_then (fit X) (\<lambda>s. and_then (transform s X) (\<lambda>Y. Inr (s, Y)))"

section \<open>Dataset preprocessing (preprocessor.py)\<close>

text \<open>
  A training example of the persisted dataset: \<^verbatim>\<open>candles\<close>, \<^verbatim>\<open>context\<close>,
  \<^verbatim>\<open>indicators\<close> and \<^verbatim>\<open>labels\<close> are dictionaries read with \<^verbatim>\<open>d[k]\<close> (a missing key
  raises); \<^verbatim>\<open>patterns\<close> is optional. Flags and labels are read through Python's
  truth test, so a member is a boolean or a number.
\<close>

datatype pval = PBool bool | PNum real

fun truthy :: "pval \<Rightarrow> bool" where
  "truthy (PBool b) = b"
| "truthy (PNum r) = (r \<noteq> 0)"

fun num_of :: "pval \<Rightarrow> real" where
  "num_of (PBool b) = (if b then 1 else 0)"
| "num_of (PNum r) = r"

record example =
  ex_candles :: "(string \<rightharpoonup> real) list"
  ex_context :: "string \<rightharpoonup> real"
  ex_indicators :: "string \<rightharpoonup> real"
  ex_patterns :: "(string \<rightharpoonup> pval) option"
  ex_labels :: "string \<rightharpoonup> pval"

text \<open>What one pass of the extraction loop appends to the seven accumulators.\<close>

record features =
  f_candles :: "real list list"
  f_context :: "real list"
  f_indicators :: "real list"
  f_patterns :: "real list"
  f_profitable :: real
  f_max_profit :: real
  f_rug_risk :: real

definition flag :: "(string \<rightharpoonup> pval) \<Rightarrow> string \<Rightarrow> exn + real" where
  "flag d k = and_then (dict_item d k) (\<lambda>v. Inr (if truthy v then 1 else 0))"

definition number :: "(string \<rightharpoonup> pval) \<Rightarrow> string \<Rightarrow> exn + real" where
  "number d k = and_then (dict_item d k) (\<lambda>v. Inr (num_of v))"

definition extract_patterns :: "(string \<rightharpoonup> pval) option \<Rightarrow> exn + real list" where
  "extract_patterns po =
     (case po of
        Some p \<Rightarrow>
          and_then (collect (flag p)
            [''has_bullish_pin'', ''has_bearish_pin'',
             ''has_bullish_engulfing'', ''has_bearish_engulfing'']) (\<lambda>flags.
          and_then (collect (number p)
            [''wick_rejection_ratio'', ''body_to_range_ratio'',
             ''pattern_confidence'', ''context_score'']) (\<lambda>ratios.
            Inr (flags @ ratios)))
      | None \<Rightarrow> Inr (replicate 8 0))"

definition extract_example :: "example \<Rightarrow> exn + features" where
  "extract_example ex =
     and_then (collect (\<lambda>c. collect (dict_item c)
                 [''open'', ''high'', ''low'', ''close'', ''volume'']) (ex_candles ex)) (\<lambda>candles.
     and_then (collect (dict_item (ex_context ex))
                 [''liquidity'', ''marketCap'', ''holders'', ''age'', ''volume24h'']) (\<lambda>context.
     and_then (collect (dict_item (ex_indicators ex))
                 [''rsi'', ''macd'', ''ema_fast'', ''ema_slow'', ''bbands_width'']) (\<lambda>indicators.
     and_then (extract_patterns (ex_patterns ex)) (\<lambda>pats.
     and_then (flag (ex_labels ex) ''profitable'') (\<lambda>profitable.
     and_then (number (ex_labels ex) ''max_profit'') (\<lambda>max_profit.
     and_then (flag (ex_labels ex) ''rug_risk'') (\<lambda>rug_risk.
       Inr \<lparr>f_candles = candles, f_context = context, f_indicators = indicators,
            f_patterns = pats, f_profitable = profitable, f_max_profit = max_profit,
            f_rug_risk = rug_risk\<rparr>)))))))"

text \<open>
  \<^verbatim>\<open>np.array(X_candles)\<close> followed by the unpacking
  \<^verbatim>\<open>N, timesteps, features = X_candles.shape\<close>: the array must be three-dimensional, so
  there is at least one example, every example has the same number of candles, and
  that number is not zero.
\<close>

definition stack_candles :: "real list list list \<Rightarrow> exn + real list list list" where
  "stack_candles Xs =
     (if Xs = [] \<or> hd Xs = [] \<or> \<not> list_all (\<lambda>X. length X = length (hd Xs)) Xs
      then Inl (ValueError ''array is not three-dimensional'')
      else Inr Xs)"

text \<open>
  \<^verbatim>\<open>_scale_candles\<close>: flatten to rows of five, fit and apply the robust scaler, and cut
  the rows back into one block per example.
\<close>

definition scale_candles :: "real list list list \<Rightarrow> exn + scaler \<times> real list list list" where
  "scale_candles X_candles =
     (let N = length X_candles;
          timesteps = length (hd X_candles);
          X_reshaped = concat X_candles
      in and_then (fit_transform robust_fit X_reshaped) (\<lambda>(candle_scaler, X_scaled).
           Inr (candle_scaler,
                map (\<lambda>i. take timesteps (drop (i * timesteps) X_scaled)) [0..<N])))"

text \<open>
  Everything \<^verbatim>\<open>load_and_preprocess\<close> computes before it splits: the three fitted scalers
  (kept on the object and saved by \<^verbatim>\<open>save_scalers\<close>), the scaled candles, the combined
  vectors and the labels.
\<close>

record assembled =
  candle_scaler :: scaler
  context_scaler :: scaler
  indicator_scaler :: scaler
  X_candles_scaled :: "real list list list"
  X_combined :: "real list list"
  y_stack :: "real list list"
  y_profitable :: "real list"

definition assemble :: "example list \<Rightarrow> exn + assembled" where
  "assemble examples =
     and_then (collect extract_example examples) (\<lambda>fs.
     and_then (stack_candles (map f_candles fs)) (\<lambda>X_candles.
     and_then (scale_candles X_candles) (\<lambda>(cs, Xc).
     and_then (fit_transform standard_fit (map f_context fs)) (\<lambda>(xs, X_context_scaled).
     and_then (fit_transform standard_fit (map f_indicators fs)) (\<lambda>(ins, X_indicators_scaled).
       Inr \<lparr>candle_scaler = cs, context_scaler = xs, indicator_scaler = ins,
            X_candles_scaled = Xc,
            X_combined = map (\<lambda>(c, i, p). c @ i @ p)
               (zip X_context_scaled (zip X_indicators_scaled (map f_patterns fs))),
            y_stack = map (\<lambda>f. [f_profitable f, f_max_profit f, f_rug_risk f]) fs,
            y_profitable = map f_profitable fs\<rparr>)))))"

text \<open>Indexing an array with an index array: an index out of range raises.\<close>

definition take_rows :: "'a list \<Rightarrow> nat list \<Rightarrow> exn + 'a list" where
  "take_rows xs idx =
     collect (\<lambda>i. if i < length xs then Inr (xs ! i)
                  else Inl (IndexError ''index is out of bounds'')) idx"

text \<open>
  \<^verbatim>\<open>train_test_split(array, test_size, random_state=42, stratify=labels)\<close> is library
  code and a parameter here: a function of the array, the test size and the labels.
\<close>

type_synonym splitter = "nat list \<Rightarrow> real \<Rightarrow> real list \<Rightarrow> exn + nat list \<times> nat list"

record split_data =
  scalers_fitted :: assembled
  train_idx :: "nat list"
  val_idx :: "nat list"
  test_idx :: "nat list"
  X_train :: "real list list list \<times> real list list"
  X_val :: "real list list list \<times> real list list"
  X_test :: "real list list list \<times> real list list"
  y_train :: "real list list"
  y_val :: "real list list"
  y_test :: "real list list"

definition pick :: "assembled \<Rightarrow> nat list \<Rightarrow> exn + real list list list \<times> real list list" where
  "pick a idx =
     and_then (take_rows (X_candles_scaled a) idx) (\<lambda>c.
     and_then (take_rows (X_combined a) idx) (\<lambda>v. Inr (c, v)))"

definition load_and_preprocess :: "splitter \<Rightarrow> example list \<Rightarrow> exn + split_data" where
  "load_and_preprocess train_test_split examples =
     and_then (assemble examples) (\<lambda>a.
     let indices = [0..<length (X_candles_scaled a)]
     in and_then (train_test_split indices 0.3 (y_profitable a)) (\<lambda>(train, temp).
        and_then (take_rows (y_profitable a) temp) (\<lambda>strat.
        and_then (train_test_split temp 0.5 strat) (\<lambda>(val, test).
        and_then (pick a train) (\<lambda>Xtr.
        and_then (pick a val) (\<lambda>Xva.
        and_then (pick a test) (\<lambda>Xte.
        and_then (take_rows (y_stack a) train) (\<lambda>ytr.
        and_then (take_rows (y_stack a) val) (\<lambda>yva.
        and_then (take_rows (y_stack a) test) (\<lambda>yte.
          Inr \<lparr>scalers_fitted = a, train_idx = train, val_idx = val, test_idx = test,
               X_train = Xtr, X_val = Xva, X_test = Xte,
               y_train = ytr, y_val = yva, y_test = yte\<rparr>))))))))))"

subsection \<open>Concrete datasets used in the examples\<close>

text \<open>
  An example with one candle, no \<^verbatim>\<open>patterns\<close> member and a given liquidity, and a
  splitter that cuts the index array in two halves without shuffling.
\<close>

definition sample_example :: "real \<Rightarrow> example" where
  "sample_example liq =
     \<lparr>ex_candles = [[''open'' \<mapsto> 1, ''high'' \<mapsto> 2, ''low'' \<mapsto> 1, ''close'' \<mapsto> 2,
                      ''volume'' \<mapsto> 10]],
      ex_context = [''liquidity'' \<mapsto> liq, ''marketCap'' \<mapsto> 0, ''holders'' \<mapsto> 0,
                    ''age'' \<mapsto> 0, ''volume24h'' \<mapsto> 0],
      ex_indicators = [''rsi'' \<mapsto> 0, ''macd'' \<mapsto> 0, ''ema_fast'' \<mapsto> 0,
                       ''ema_slow'' \<mapsto> 0, ''bbands_width'' \<mapsto> 0],
      ex_patterns = None,
      ex_labels = [''profitable'' \<mapsto> PBool True, ''max_profit'' \<mapsto> PNum 1,
                   ''rug_risk'' \<mapsto> PBool False]\<rparr>"

text \<open>What the extraction loop reads from such an example.\<close>

definition sample_features :: "real \<Rightarrow> features" where
  "sample_features liq =
     \<lparr>f_candles = [[1, 2, 1, 2, 10]], f_context = [liq, 0, 0, 0, 0],
      f_indicators = [0, 0, 0, 0, 0], f_patterns = replicate 8 0,
      f_profitable = 1, f_max_profit = 1, f_rug_risk = 0\<rparr>"

definition half_split :: splitter where
  "half_split idx test_size labels =
     Inr (take (length idx div 2) idx, drop (length idx div 2) idx)"

section \<open>The inference server (inference.py)\<close>

text \<open>
  \<^verbatim>\<open>line.strip()\<close> removes leading and trailing whitespace. A character is a code point
  below 256; Python's whitespace there is 9 to 13, 28 to 32, 133 and 160.
\<close>

definition py_isspace :: "char \<Rightarrow> bool" where
  "py_isspace c =
     (let n = (of_char c :: nat)
      in (9 \<le> n \<and> n \<le> 13) \<or> (28 \<le> n \<and> n \<le> 32) \<or> n = 133 \<or> n = 160)"

definition py_strip :: "string \<Rightarrow> string" where
  "py_strip s = rev (dropWhile py_isspace (rev (dropWhile py_isspace s)))"

text \<open>
  A numpy array as far as its shape is inspected: a scalar, a vector, a matrix, or an
  array of three or more dimensions of which only the shape is kept.
\<close>

datatype ndarray =
    Array0 real
  | Array1 "real list"
  | Array2 "real list list"
  | ArrayN "nat list"

definition has_shape1 :: "ndarray \<Rightarrow> nat \<Rightarrow> bool" where
  "has_shape1 a n = (case a of Array1 v \<Rightarrow> length v = n | _ \<Rightarrow> False)"

definition has_shape2 :: "ndarray \<Rightarrow> nat \<Rightarrow> nat \<Rightarrow> bool" where
  "has_shape2 a n m =
     (case a of Array2 rows \<Rightarrow> length rows = n \<and> list_all (\<lambda>r. length r = m) rows
      | _ \<Rightarrow> False)"

definition vector :: "ndarray \<Rightarrow> real list" where
  "vector a = (case a of Array1 v \<Rightarrow> v | _ \<Rightarrow> [])"

definition matrix :: "ndarray \<Rightarrow> real list list" where
  "matrix a = (case a of Array2 rows \<Rightarrow> rows | _ \<Rightarrow> [])"

text \<open>
  What the server holds and calls: the JSON parser and the array constructor (library
  code), the unpickled scalers and the loaded network. The network returns its three
  outputs for a batch of one, or raises.
\<close>

record env =
  json_loads :: "string \<Rightarrow> exn + json"
  np_array :: "json \<Rightarrow> exn + ndarray"
  scalers :: "string \<rightharpoonup> scaler"
  model :: "real list list \<Rightarrow> real list \<Rightarrow> exn + real \<times> real \<times> real"

record response =
  error :: "string option"
  profitable :: real
  max_profit :: real
  rug_risk :: real
  confidence :: real

definition preprocess :: "env \<Rightarrow> json \<Rightarrow> exn + real list list \<times> real list" where
  "preprocess e raw_input =
     and_then (py_getitem raw_input ''candles'') (\<lambda>jc.
     and_then (np_array e jc) (\<lambda>candles.
     and_then (py_getitem raw_input ''context'') (\<lambda>jx.
     and_then (np_array e jx) (\<lambda>context.
     and_then (py_getitem raw_input ''indicators'') (\<lambda>ji.
     and_then (np_array e ji) (\<lambda>indicators.
     and_then (py_getitem raw_input ''patterns'') (\<lambda>jp.
     and_then (np_array e jp) (\<lambda>pats.
       if \<not> has_shape2 candles 100 5 then Inl (ValueError ''Expected candles shape (100, 5)'')
       else if \<not> has_shape1 context 5 then Inl (ValueError ''Expected context shape (5,)'')
       else if \<not> has_shape1 indicators 5
         then Inl (ValueError ''Expected indicators shape (5,)'')
       else if \<not> has_shape1 pats 8 then Inl (ValueError ''Expected patterns shape (8,)'')
       else
         and_then (dict_item (scalers e) ''candle_scaler'') (\<lambda>cs.
         and_then (transform cs (matrix candles)) (\<lambda>candles_scaled.
         and_then (dict_item (scalers e) ''context_scaler'') (\<lambda>xs.
         and_then (transform xs [vector context]) (\<lambda>X.
         and_then (dict_item (scalers e) ''indicator_scaler'') (\<lambda>ins.
         and_then (transform ins [vector indicators]) (\<lambda>I.
           let context_scaled = hd X;
               indicators_scaled = hd I;
               patterns_scaled = vector pats;
               combined = context_scaled @ indicators_scaled @ patterns_scaled
           in Inr (candles_scaled, combined)))))))))))))))"

definition sigmoid :: "real \<Rightarrow> real" where
  "sigmoid x = 1 / (1 + exp (- x))"

text \<open>\<^verbatim>\<open>str(e)\<close>: the message of an exception.\<close>

fun str_exn :: "exn \<Rightarrow> string" where
  "str_exn (KeyError k) = [CHR 0x27] @ k @ [CHR 0x27]"
| "str_exn (ValueError m) = m"
| "str_exn (TypeError m) = m"
| "str_exn (IndexError m) = m"
| "str_exn (AttributeError m) = m"
| "str_exn ZeroDivisionError = ''division by zero''"
| "str_exn (JSONDecodeError m) = m"
| "str_exn (UnicodeDecodeError m) = m"
| "str_exn (OtherException m) = m"

text \<open>The dictionary the three handlers build.\<close>

definition fail_closed :: "string \<Rightarrow> response" where
  "fail_closed msg =
     \<lparr>error = Some msg, profitable = 0.0, max_profit = 0.0, rug_risk = 1.0,
      confidence = 0.0\<rparr>"

definition predict :: "env \<Rightarrow> json \<Rightarrow> response" where
  "predict e raw_input =
     (case and_then (preprocess e raw_input) (\<lambda>(candles, combined).
             and_then (model e candles combined) (\<lambda>(profitable_logit, max_profit_pred, rug_logit).
               let profitable_prob = sigmoid profitable_logit;
                   rug_prob = sigmoid rug_logit;
                   max_profit_value = max_profit_pred;
                   profitable_confidence = \<bar>profitable_prob - 0.5\<bar> * 2;
                   rug_confidence = \<bar>rug_prob - 0.5\<bar> * 2;
                   overall_confidence = (profitable_confidence + rug_confidence) / 2
               in Inr \<lparr>error = None, profitable = profitable_prob,
                       max_profit = max_profit_value, rug_risk = rug_prob,
                       confidence = overall_confidence\<rparr>))
      of Inl ex \<Rightarrow> fail_closed (str_exn ex)
       | Inr result \<Rightarrow> result)"

text \<open>
  \<^verbatim>\<open>run\<close>: the loop \<^verbatim>\<open>for line in sys.stdin\<close>. Standard input is the list of what
  the successive reads of the loop header give: a decoded line, or the exception the
  text stream raises (\<^verbatim>\<open>UnicodeDecodeError\<close> on bytes that are not valid in its
  encoding; the server reconfigures only standard output and standard error). The
  header is outside the \<^verbatim>\<open>try\<close> statement of the body, so an exception raised there
  is not caught: it ends the loop and the process. The value is the list of responses
  printed, in order, and the uncaught exception, if any.
\<close>

definition handle_line :: "env \<Rightarrow> string \<Rightarrow> response" where
  "handle_line e line =
     (case json_loads e line of
        Inr request \<Rightarrow> predict e request
      | Inl (JSONDecodeError m) \<Rightarrow> fail_closed (''Invalid JSON: '' @ m)
      | Inl ex \<Rightarrow> fail_closed (''Inference failed: '' @ str_exn ex))"

fun run :: "env \<Rightarrow> (exn + string) list \<Rightarrow> response list \<times> exn option" where
  "run e [] = ([], None)"
| "run e (Inl ex # rest) = ([], Some ex)"
| "run e (Inr line # rest) =
     (let line = py_strip line
      in if line = [] then run e rest
         else (case run e rest of (out, ended) \<Rightarrow> (handle_line e line # out, ended)))"

subsection \<open>Concrete instances used in the examples\<close>

text \<open>An array constructor for numeric vectors and rectangular numeric matrices.\<close>

definition json_row :: "json \<Rightarrow> exn + real list" where
  "json_row j = (case j of JArr ys \<Rightarrow> collect as_number ys
                 | _ \<Rightarrow> Inl (ValueError ''inhomogeneous shape''))"

definition array_of_json :: "json \<Rightarrow> exn + ndarray" where
  "array_of_json j =
     (case j of
        JNum r \<Rightarrow> Inr (Array0 r)
      | JBool b \<Rightarrow> Inr (Array0 (if b then 1 else 0))
      | JArr xs \<Rightarrow>
          (case collect as_number xs of
             Inr v \<Rightarrow> Inr (Array1 v)
           | Inl _ \<Rightarrow>
               and_then (collect json_row xs) (\<lambda>rows.
                 if list_all (\<lambda>r. length r = length (hd rows)) rows then Inr (Array2 rows)
                 else Inl (ValueError ''inhomogeneous shape'')))
      | _ \<Rightarrow> Inl (TypeError ''not a number''))"

text \<open>The request of test\_inference.py.\<close>

definition example_input :: json where
  "example_input =
     JObj [(''candles'',
              JArr (replicate 100
                (JArr [JNum 0.001, JNum 0.0012, JNum 0.0009, JNum 0.0011, JNum 1000]))),
           (''context'', JArr [JNum 500000, JNum 1000000, JNum 150, JNum 2.5, JNum 250000]),
           (''indicators'', JArr [JNum 55, JNum 0.0001, JNum 0.0011, JNum 0.001, JNum 0.05]),
           (''patterns'',
              JArr [JNum 1, JNum 0, JNum 1, JNum 0, JNum 3.5, JNum 0.7, JNum 0.75, JNum 0.6])]"

text \<open>
  A server whose parser knows one line, whose scalers are the identity and whose
  network answers \<open>(0.7, 4.0, 0.05)\<close> to everything.
\<close>

definition unit_scalers :: "string \<rightharpoonup> scaler" where
  "unit_scalers =
     [''candle_scaler'' \<mapsto> RobustScaler (replicate 5 0) (replicate 5 1) 5,
      ''context_scaler'' \<mapsto> StandardScaler (replicate 5 0) (replicate 5 1) (replicate 5 1) 5,
      ''indicator_scaler'' \<mapsto> StandardScaler (replicate 5 0) (replicate 5 1) (replicate 5 1) 5]"

definition stub_env :: env where
  "stub_env =
     \<lparr>json_loads = (\<lambda>s. if s = ''request'' then Inr example_input
                         else Inl (JSONDecodeError ''Expecting value: line 1 column 1 (char 0)'')),
      np_array = array_of_json,
      scalers = unit_scalers,
      model = (\<lambda>candles combined. Inr (0.7, 4.0, 0.05))\<rparr>"

section \<open>Properties of the context scorer and the pattern detector\<close>

lemma trend_term_range: "trend_term cs = Inr t \<Longrightarrow> 0 \<le> t \<and> t \<le> 0.30"
  by (auto simp: trend_term_def and_then_def py_div_def Let_def split: if_splits)

lemma position_term_range: "0 \<le> position_term cs \<and> position_term cs \<le> 0.25"
  by (simp add: position_term_def Let_def)

lemma liquidity_term_range: "0 \<le> liquidity_term ctx \<and> liquidity_term ctx \<le> 0.20"
  by (simp add: liquidity_term_def Let_def)

text \<open>Whenever the scorer returns, its value is in the unit interval.\<close>

lemma context_score_range:
  assumes "calculate_context_score cs ctx = Inr s"
  shows "0 \<le> s \<and> s \<le> 1"
proof -
  from assms obtain t where t: "trend_term cs = Inr t"
    and s: "s = min (0 + t + position_term cs + liquidity_term ctx) 1"
    by (auto simp: calculate_context_score_def and_then_def Let_def split: sum.splits)
  from trend_term_range[OF t] position_term_range[of cs] liquidity_term_range[of ctx] s
  show ?thesis by auto
qed

text \<open>
  It returns exactly when there are fewer than twenty candles or the close of the
  twentieth candle from the end is not zero.
\<close>

lemma context_score_returns:
  "(\<exists>s. calculate_context_score cs ctx = Inr s) \<longleftrightarrow>
   (length cs < 20 \<or> c_close (cs ! (length cs - 20)) \<noteq> 0)"
  by (auto simp: calculate_context_score_def trend_term_def and_then_def py_div_def Let_def
      hd_drop_conv_nth split: sum.splits if_splits)

text \<open>
  C3. The claim is that the context score of every candle sequence with finite values
  lies in \<open>[0,1]\<close>. On twenty candles whose closes are zero the trend term divides by
  the first close and the scorer raises \<^verbatim>\<open>ZeroDivisionError\<close> instead of returning a
  score; the position term of the same function guards its own division.
\<close>

theorem context_score_zero_close_raises:
  "calculate_context_score
     (replicate 20 \<lparr>c_open = 0, c_high = 0, c_low = 0, c_close = 0, c_volume = 0\<rparr>)
     [''liquidity'' \<mapsto> 0] = Inl ZeroDivisionError"
  by (simp add: calculate_context_score_def trend_term_def and_then_def py_div_def Let_def)

text \<open>
  C5. For every candle sequence of length less than two the detector returns the
  default: the four flags are false and the four numbers are zero.
\<close>

theorem detect_short_default:
  assumes "length candles < 2"
  shows "detect_candlestick_patterns candles context =
     Inr \<lparr>has_bullish_pin = False, has_bearish_pin = False,
          has_bullish_engulfing = False, has_bearish_engulfing = False,
          wick_rejection_ratio = 0, body_to_range_ratio = 0,
          pattern_confidence = 0, context_score = 0\<rparr>"
  using assms by (simp add: detect_candlestick_patterns_def default_patterns_def)

text \<open>C5, at a single candle (and a context with a large liquidity).\<close>

theorem detect_short_default_witness:
  "detect_candlestick_patterns
     [\<lparr>c_open = 1, c_high = 3, c_low = 1, c_close = 2, c_volume = 10\<rparr>]
     [''liquidity'' \<mapsto> 600000] =
     Inr \<lparr>has_bullish_pin = False, has_bearish_pin = False,
          has_bullish_engulfing = False, has_bearish_engulfing = False,
          wick_rejection_ratio = 0, body_to_range_ratio = 0,
          pattern_confidence = 0, context_score = 0\<rparr>"
  by (rule detect_short_default) simp

text \<open>
  C4, as stated, fails: nothing relates the body of a candle to its range. On a final
  candle with open 1, close 5, high 2 and low 1 the body is 4 and the range is 1, and
  the detector returns a body-to-range ratio of 4.
\<close>

theorem body_to_range_exceeds_one:
  "map_sum id body_to_range_ratio
     (detect_candlestick_patterns
        [\<lparr>c_open = 1, c_high = 2, c_low = 1, c_close = 1, c_volume = 0\<rparr>,
         \<lparr>c_open = 1, c_high = 2, c_low = 1, c_close = 5, c_volume = 0\<rparr>] Map.empty) = Inr 4"
  by (simp add: detect_candlestick_patterns_def and_then_def Let_def body_of_def
      calculate_context_score_def trend_term_def position_term_def liquidity_term_def
      total_range_of_def upper_wick_of_def lower_wick_of_def pin_confidence_def dict_get_def)

text \<open>
  C4, amended. For every candle sequence of length at least two on which the context
  scorer returns, the detector returns a result whose wick rejection ratio is at most
  10, whose body-to-range ratio is not negative, is zero when the range of the final
  candle is zero, and is at most 1 when the body of the final candle does not exceed
  its range.
\<close>

theorem detect_ratio_bounds:
  assumes "2 \<le> length candles"
    and "calculate_context_score candles context = Inr s"
  shows "\<exists>r. detect_candlestick_patterns candles context = Inr r
     \<and> wick_rejection_ratio r \<le> 10
     \<and> 0 \<le> body_to_range_ratio r
     \<and> (total_range_of (last candles) = 0 \<longrightarrow> body_to_range_ratio r = 0)
     \<and> (body_of (last candles) \<le> total_range_of (last candles)
          \<longrightarrow> body_to_range_ratio r \<le> 1)"
  using assms
  by (simp add: detect_candlestick_patterns_def and_then_def Let_def body_of_def)

text \<open>C4, amended, at two candles the second of which has a body within its range.\<close>

theorem detect_ratio_bounds_witness:
  "\<exists>r. detect_candlestick_patterns
          [\<lparr>c_open = 1, c_high = 2, c_low = 1, c_close = 1, c_volume = 0\<rparr>,
           \<lparr>c_open = 2, c_high = 6, c_low = 1, c_close = 5, c_volume = 0\<rparr>] Map.empty = Inr r
     \<and> wick_rejection_ratio r \<le> 10
     \<and> 0 \<le> body_to_range_ratio r
     \<and> (total_range_of (last
            [\<lparr>c_open = 1, c_high = 2, c_low = 1, c_close = 1, c_volume = 0\<rparr>,
             \<lparr>c_open = 2, c_high = 6, c_low = 1, c_close = 5, c_volume = 0\<rparr>]) = 0
          \<longrightarrow> body_to_range_ratio r = 0)
     \<and> (body_of (last
            [\<lparr>c_open = 1, c_high = 2, c_low = 1, c_close = 1, c_volume = 0\<rparr>,
             \<lparr>c_open = 2, c_high = 6, c_low = 1, c_close = 5, c_volume = 0\<rparr>])
          \<le> total_range_of (last
            [\<lparr>c_open = 1, c_high = 2, c_low = 1, c_close = 1, c_volume = 0\<rparr>,
             \<lparr>c_open = 2, c_high = 6, c_low = 1, c_close = 5, c_volume = 0\<rparr>])
          \<longrightarrow> body_to_range_ratio r \<le> 1)"
  by (rule detect_ratio_bounds[where s = 0])
     (simp_all add: calculate_context_score_def trend_term_def position_term_def
        liquidity_term_def dict_get_def and_then_def)

lemma pin_confidence_formula:
  "pin_confidence wick total_range =
     (if total_range > 0 then min (60 + (wick / total_range * 100) * 0.3) 80 / 100 else 0.60)"
  by (simp add: pin_confidence_def)

lemma pin_confidence_lower: "0 \<le> wick \<Longrightarrow> 0.6 \<le> pin_confidence wick total_range"
  by (simp add: pin_confidence_def min_def)

text \<open>
  When the context scorer returns: for every candle sequence of length at least two
  whose final candle has a lower wick greater than twice its body and a close above its
  open, the detector sets the bullish pin flag and not the bearish one, and the pattern
  confidence is the running maximum of the pin candidate
  \<open>min(60 + (lowerWick/totalRange*100)*0.3, 80)/100\<close> (0.60 when the range is not
  positive) and of 0.65 when the bullish engulfing rule matched as well.
\<close>

lemma bullish_pin_when_scored:
  assumes len: "2 \<le> length candles"
    and wick: "min (c_close (last candles)) (c_open (last candles)) - c_low (last candles)
                > \<bar>c_close (last candles) - c_open (last candles)\<bar> * 2.0"
    and bull: "c_close (last candles) > c_open (last candles)"
    and sc: "calculate_context_score candles context = Inr s"
  shows "\<exists>r. detect_candlestick_patterns candles context = Inr r
     \<and> has_bullish_pin r \<and> \<not> has_bearish_pin r
     \<and> pattern_confidence r =
         max (if c_high (last candles) - c_low (last candles) > 0
              then min (60 + ((min (c_close (last candles)) (c_open (last candles))
                                - c_low (last candles))
                              / (c_high (last candles) - c_low (last candles))
                               * 100) * 0.3) 80 / 100
              else 0.60)
             (if has_bullish_engulfing r then 0.65 else 0)"
proof -
  let ?c = "pin_confidence (lower_wick_of (last candles)) (total_range_of (last candles))"
  have w: "lower_wick_of (last candles) > body_of (last candles) * 2.0"
    using wick by (simp add: lower_wick_of_def body_of_def)
  have "0 \<le> body_of (last candles)" by (simp add: body_of_def)
  with w have "0 \<le> lower_wick_of (last candles)" by simp
  then have c: "0.6 \<le> ?c" by (rule pin_confidence_lower)
  then have m: "max 0 ?c = ?c" by simp
  have nb: "\<not> c_close (last candles) < c_open (last candles)" using bull by simp
  have "\<exists>r. detect_candlestick_patterns candles context = Inr r
     \<and> has_bullish_pin r \<and> \<not> has_bearish_pin r
     \<and> pattern_confidence r = max ?c (if has_bullish_engulfing r then 0.65 else 0)"
    using len w bull sc nb c
    by (simp add: detect_candlestick_patterns_def and_then_def Let_def m)
  then show ?thesis
    by (simp only: pin_confidence_formula lower_wick_of_def total_range_of_def)
qed

text \<open>
  A bullish candle with body 1, lower wick 3 (three times the body) and no upper wick,
  after a flat candle: the bullish pin flag is set, the bearish one is not, and the
  confidence is \<open>min(60 + 75 * 0.3, 80) / 100 = 0.8\<close>.
\<close>

lemma bullish_pin_example:
  "detect_candlestick_patterns
     [\<lparr>c_open = 10, c_high = 10, c_low = 10, c_close = 10, c_volume = 5\<rparr>,
      \<lparr>c_open = 10, c_high = 11, c_low = 7, c_close = 11, c_volume = 5\<rparr>] Map.empty
   = Inr \<lparr>has_bullish_pin = True, has_bearish_pin = False,
          has_bullish_engulfing = False, has_bearish_engulfing = False,
          wick_rejection_ratio = 3, body_to_range_ratio = 1 / 4,
          pattern_confidence = 0.8, context_score = 0\<rparr>"
  by (simp add: detect_candlestick_patterns_def and_then_def Let_def body_of_def
      calculate_context_score_def trend_term_def position_term_def liquidity_term_def
      total_range_of_def upper_wick_of_def lower_wick_of_def pin_confidence_def dict_get_def)

text \<open>
  C6. The claim is that for every candle sequence of length at least two whose final
  candle has a lower wick greater than twice its body and a close above its open, the
  detector sets the bullish pin flag. On twenty candles, the first with close zero and
  the others the pin candle above (lower wick 3, body 1, no upper wick, close above
  open), the detector computes the flag and then calls the context scorer, which
  divides by the zero close: the detector raises \<^verbatim>\<open>ZeroDivisionError\<close> and returns no
  flag. This is the unguarded division of C3.
\<close>

theorem bullish_pin_zero_close_raises:
  "length (\<lparr>c_open = 0, c_high = 0, c_low = 0, c_close = 0, c_volume = 0\<rparr>
            # replicate 19 \<lparr>c_open = 10, c_high = 11, c_low = 7, c_close = 11, c_volume = 5\<rparr>)
     = 20
   \<and> last (\<lparr>c_open = 0, c_high = 0, c_low = 0, c_close = 0, c_volume = 0\<rparr>
            # replicate 19 \<lparr>c_open = 10, c_high = 11, c_low = 7, c_close = 11, c_volume = 5\<rparr>)
     = \<lparr>c_open = 10, c_high = 11, c_low = 7, c_close = 11, c_volume = 5\<rparr>
   \<and> lower_wick_of \<lparr>c_open = 10, c_high = 11, c_low = 7, c_close = 11, c_volume = 5\<rparr> = 3
   \<and> body_of \<lparr>c_open = 10, c_high = 11, c_low = 7, c_close = 11, c_volume = 5\<rparr> = 1
   \<and> upper_wick_of \<lparr>c_open = 10, c_high = 11, c_low = 7, c_close = 11, c_volume = 5\<rparr> = 0
   \<and> detect_candlestick_patterns
       (\<lparr>c_open = 0, c_high = 0, c_low = 0, c_close = 0, c_volume = 0\<rparr>
          # replicate 19 \<lparr>c_open = 10, c_high = 11, c_low = 7, c_close = 11, c_volume = 5\<rparr>)
       [''liquidity'' \<mapsto> 0] = Inl ZeroDivisionError"
  by (simp add: detect_candlestick_patterns_def calculate_context_score_def trend_term_def
      and_then_def py_div_def Let_def lower_wick_of_def body_of_def upper_wick_of_def)

section \<open>Properties of the inference server\<close>

lemma py_strip_Nil_iff: "py_strip s = [] \<longleftrightarrow> (\<forall>c\<in>set s. py_isspace c)"
proof -
  have "(\<forall>x\<in>set (dropWhile P xs). P x) \<longleftrightarrow> (\<forall>x\<in>set xs. P x)" for P :: "char \<Rightarrow> bool" and xs
    by (induction xs) auto
  then show ?thesis
    by (simp add: py_strip_def dropWhile_eq_Nil_conv)
qed

text \<open>
  On decoded lines the loop runs to the end of the input: a line whose stripped text is
  empty contributes nothing, every other line contributes exactly one response.
\<close>

lemma run_decoded:
  "run e (map Inr ls) =
     (concat (map (\<lambda>l. if py_strip l = [] then [] else [handle_line e (py_strip l)]) ls),
      None)"
  by (induction ls) (simp_all add: Let_def)

text \<open>After a prefix of decoded lines the loop goes on with the rest of the input.\<close>

lemma run_prefix:
  "run e (map Inr ls @ rest) = (fst (run e (map Inr ls)) @ fst (run e rest), snd (run e rest))"
  by (induction ls) (simp_all add: Let_def split: prod.splits)

text \<open>An exception of the loop header ends the loop: nothing after it is read.\<close>

lemma run_header_raises:
  "run e (map Inr ls @ Inl ex # rest) = (fst (run e (map Inr ls)), Some ex)"
  by (simp add: run_prefix)

text \<open>A blank line can be taken out of any input without changing what the loop does.\<close>

lemma run_blank:
  assumes "py_strip line = []"
  shows "run e (before @ Inr line # rest) = run e (before @ rest)"
proof (induction before)
  case Nil
  show ?case using assms by simp
next
  case (Cons x before)
  then show ?case by (cases x) (simp_all add: Let_def)
qed

lemma predict_failure:
  assumes "(\<exists>ex. preprocess e req = Inl ex) \<or>
           (\<exists>c v ex. preprocess e req = Inr (c, v) \<and> model e c v = Inl ex)"
  shows "\<exists>msg. predict e req = fail_closed msg"
  using assms by (auto simp: predict_def and_then_def)

lemma handle_line_failure:
  assumes "(\<exists>ex. json_loads e l = Inl ex) \<or>
     (\<exists>req. json_loads e l = Inr req \<and>
        ((\<exists>ex. preprocess e req = Inl ex) \<or>
         (\<exists>c v ex. preprocess e req = Inr (c, v) \<and> model e c v = Inl ex)))"
  shows "\<exists>msg. handle_line e l = fail_closed msg"
  using assms
proof (elim disjE exE conjE)
  fix ex assume "json_loads e l = Inl ex"
  then show ?thesis by (cases ex) (auto simp: handle_line_def)
next
  fix req ex assume "json_loads e l = Inr req" "preprocess e req = Inl ex"
  then show ?thesis using predict_failure[of e req] by (auto simp: handle_line_def)
next
  fix req c v ex assume "json_loads e l = Inr req" "preprocess e req = Inr (c, v)" "model e c v = Inl ex"
  then show ?thesis using predict_failure[of e req] by (auto simp: handle_line_def)
qed

text \<open>
  A failure inside the loop body is answered in band: for a decoded line that is not
  blank and on which the parser, the preprocessing (array conversion, shape validation,
  scaling) or the network raises, the loop prints one response with an error message
  and the defaults \<open>profitable = 0.0\<close>, \<open>max_profit = 0.0\<close>, \<open>rug_risk = 1.0\<close>,
  \<open>confidence = 0.0\<close>, and goes on with the rest of the input.
\<close>

lemma run_stage_failure:
  assumes "py_strip line \<noteq> []"
    and "(\<exists>ex. json_loads e (py_strip line) = Inl ex) \<or>
     (\<exists>req. json_loads e (py_strip line) = Inr req \<and>
        ((\<exists>ex. preprocess e req = Inl ex) \<or>
         (\<exists>c v ex. preprocess e req = Inr (c, v) \<and> model e c v = Inl ex)))"
  shows "\<exists>msg. run e (Inr line # rest) =
           (\<lparr>error = Some msg, profitable = 0.0, max_profit = 0.0, rug_risk = 1.0,
             confidence = 0.0\<rparr> # fst (run e rest),
            snd (run e rest))"
proof -
  from handle_line_failure[OF assms(2)] obtain msg
    where "handle_line e (py_strip line) = fail_closed msg" by blast
  with assms(1) show ?thesis
    by (auto simp: fail_closed_def Let_def split: prod.splits)
qed

text \<open>
  C1. The claim is that every failure on an input line is answered in band and that
  only the end of the input ends the loop. A line that the text stream cannot decode
  fails in the loop header, outside the \<^verbatim>\<open>try\<close> statement: after one good request,
  an undecodable line ends the loop with the uncaught \<^verbatim>\<open>UnicodeDecodeError\<close>; it gets
  no response, and the good request after it is never read.
\<close>

theorem run_ends_on_decode_error:
  "run stub_env
     [Inr ''request'',
      Inl (UnicodeDecodeError ''utf-8 codec cannot decode byte 0xff: invalid start byte''),
      Inr ''request'']
   = ([predict stub_env example_input],
      Some (UnicodeDecodeError ''utf-8 codec cannot decode byte 0xff: invalid start byte''))"
  by (simp add: py_strip_def py_isspace_def handle_line_def stub_env_def Let_def)

text \<open>
  C10. For every input line that is empty or consists of whitespace only, the loop
  prints nothing and goes on with the next line: the line can be taken out of any input
  without changing the responses or the way the loop ends, and on decoded inputs the
  responses are those to the lines before it followed by those to the lines after it.
\<close>

theorem run_skips_blank_lines:
  assumes "\<forall>c\<in>set line. py_isspace c"
  shows "run e (before @ Inr line # rest) = run e (before @ rest)
     \<and> fst (run e (map Inr (ls @ line # ls'))) =
         fst (run e (map Inr ls)) @ fst (run e (map Inr ls'))"
proof -
  from assms have b: "py_strip line = []" by (simp add: py_strip_Nil_iff)
  have "fst (run e (map Inr (ls @ line # ls'))) =
         fst (run e (map Inr ls)) @ fst (run e (map Inr ls'))"
    unfolding run_decoded using b by simp
  with run_blank[OF b] show ?thesis by simp
qed

text \<open>C10, at a line of a space, a tab and a newline between two requests.\<close>

theorem run_skips_blank_lines_witness:
  "run stub_env ([Inr ''request''] @ Inr [CHR '' '', CHR 0x09, CHR 0x0A] # [Inr ''request''])
     = run stub_env ([Inr ''request''] @ [Inr ''request''])
   \<and> fst (run stub_env (map Inr ([''request''] @ [CHR '' '', CHR 0x09, CHR 0x0A] # [''request'']))) =
       fst (run stub_env (map Inr [''request''])) @ fst (run stub_env (map Inr [''request'']))"
  by (rule run_skips_blank_lines) (simp add: py_isspace_def)

text \<open>What \<^verbatim>\<open>predict\<close> answers when nothing raises.\<close>

lemma predict_success:
  assumes "preprocess e req = Inr (c, v)" and "model e c v = Inr (p, m, r)"
  shows "predict e req =
     \<lparr>error = None, profitable = sigmoid p, max_profit = m, rug_risk = sigmoid r,
      confidence = (\<bar>sigmoid p - 0.5\<bar> * 2 + \<bar>sigmoid r - 0.5\<bar> * 2) / 2\<rparr>"
  using assms by (simp add: predict_def and_then_def Let_def)

lemma collect_replicate:
  "f x = Inr y \<Longrightarrow> collect f (replicate n x) = Inr (replicate n y)"
  by (induction n) (simp_all add: and_then_def)

text \<open>The request of test\_inference.py passes the preprocessing of the stub server.\<close>

lemma preprocess_example: "\<exists>c v. preprocess stub_env example_input = Inr (c, v)"
proof -
  define row where "row = [0.001, 0.0012, 0.0009, 0.0011, 1000::real]"
  define cj where "cj = JArr (replicate 100 (JArr (map JNum row)))"
  define m where "m = replicate 100 row"
  define xv where "xv = [500000, 1000000, 150, 2.5, 250000::real]"
  define iv where "iv = [55, 0.0001, 0.0011, 0.001, 0.05::real]"
  define pv where "pv = [1, 0, 1, 0, 3.5, 0.7, 0.75, 0.6::real]"
  have inp: "example_input =
     JObj [(''candles'', cj), (''context'', JArr (map JNum xv)),
           (''indicators'', JArr (map JNum iv)), (''patterns'', JArr (map JNum pv))]"
    by (simp add: example_input_def cj_def row_def xv_def iv_def pv_def)
  have r: "json_row (JArr (map JNum row)) = Inr row"
    by (simp add: json_row_def row_def and_then_def)
  have "replicate 100 x = x # replicate 99 x" for x :: json
    by (simp add: replicate_Suc[symmetric] del: replicate_Suc)
  then have "\<exists>ex. collect as_number (replicate 100 (JArr (map JNum row))) = Inl ex"
    by (simp add: and_then_def)
  then have c: "array_of_json cj = Inr (Array2 m)"
    by (auto simp: array_of_json_def cj_def m_def collect_replicate[where f = json_row, OF r]
        and_then_def list_all_iff)
  have a: "array_of_json (JArr (map JNum xv)) = Inr (Array1 xv)"
    "array_of_json (JArr (map JNum iv)) = Inr (Array1 iv)"
    "array_of_json (JArr (map JNum pv)) = Inr (Array1 pv)"
    by (simp_all add: array_of_json_def and_then_def xv_def iv_def pv_def)
  have m: "m \<noteq> []" "length m = 100" "list_all (\<lambda>r. length r = 5) m"
    by (simp_all add: m_def row_def list_all_iff)
  have l: "length xv = 5" "length iv = 5" "length pv = 8"
    by (simp_all add: xv_def iv_def pv_def)
  have e: "np_array stub_env = array_of_json" "scalers stub_env = unit_scalers"
    by (simp_all add: stub_env_def)
  show ?thesis
    unfolding preprocess_def inp e
    by (simp add: and_then_def a c m l has_shape1_def has_shape2_def
        unit_scalers_def dict_item_def transform_def matrix_def vector_def
        location_def Let_def)
qed

lemma sigmoid_gt_half:
  assumes "0 < x"
  shows "1 / 2 < sigmoid x"
proof -
  have a: "0 < 1 + exp (- x)" by (simp add: add_pos_pos)
  have b: "1 + exp (- x) < 2" using assms by simp
  from a b have "1 / 2 < 1 / (1 + exp (- x))"
    by (intro divide_strict_left_mono) auto
  then show ?thesis by (simp add: sigmoid_def)
qed

lemma sigmoid_lt:
  assumes "0 \<le> x" "x \<le> 1" "(1 + x + x\<^sup>2) * (1 - b) < b" "0 < b" "b < 1"
  shows "sigmoid x < b"
proof -
  have e: "exp x \<le> 1 + x + x\<^sup>2" using assms(1,2) by (rule exp_bound)
  have "exp x * (1 - b) \<le> (1 + x + x\<^sup>2) * (1 - b)"
    using e assms(5) by (intro mult_right_mono) auto
  then have lt: "exp x * (1 - b) < b" using assms(3) by linarith
  have pos: "0 < exp x" by simp
  have "sigmoid x = exp x / (exp x + 1)"
    by (simp add: sigmoid_def exp_minus field_simps)
  also have "\<dots> < b"
  proof -
    have "0 < exp x + 1" using pos by linarith
    moreover have "exp x < b * (exp x + 1)" using lt by (simp add: algebra_simps)
    ultimately show ?thesis by (simp add: pos_divide_less_eq)
  qed
  finally show ?thesis .
qed

lemma sig07: "sigmoid 0.7 < 0.7"
  by (rule sigmoid_lt) (simp_all add: power2_eq_square)

lemma sig005: "sigmoid 0.05 < 0.95"
  by (rule sigmoid_lt) (simp_all add: power2_eq_square)

text \<open>
  C7. The claim is that the response carries the scores the network returned and the
  confidence computed from them, so that a network answering \<open>(0.7, 4.0, 0.05)\<close> gives
  \<open>profitable = 0.7\<close> and \<open>confidence = 0.65\<close>. The server applies the logistic function
  to the first and third output before it uses them: on the request of
  test\_inference.py the response has \<open>profitable = sigmoid 0.7 < 0.7\<close>,
  \<open>rug_risk = sigmoid 0.05\<close> and a confidence below 0.65.
\<close>

theorem predict_stub_double_sigmoid:
  "error (predict stub_env example_input) = None
   \<and> profitable (predict stub_env example_input) = sigmoid 0.7
   \<and> profitable (predict stub_env example_input) < 0.7
   \<and> max_profit (predict stub_env example_input) = 4.0
   \<and> rug_risk (predict stub_env example_input) = sigmoid 0.05
   \<and> confidence (predict stub_env example_input) < 0.65"
proof -
  have m: "model stub_env c v = Inr (0.7, 4.0, 0.05)" for c v
    by (simp add: stub_env_def)
  from preprocess_example obtain c v
    where pre: "preprocess stub_env example_input = Inr (c, v)" by blast
  note p = predict_success[OF pre m]
  have "1 / 2 < sigmoid 0.7" "1 / 2 < sigmoid 0.05"
    by (rule sigmoid_gt_half, simp)+
  with sig07 sig005 show ?thesis
    by (simp add: p)
qed

section \<open>Properties of the preprocessing\<close>

lemma collect_Inr:
  "(\<And>x. x \<in> set xs \<Longrightarrow> f x = Inr (g x)) \<Longrightarrow> collect f xs = Inr (map g xs)"
  by (induction xs) (simp_all add: and_then_def)

lemma collect_eq_Inr:
  "collect f xs = Inr ys \<longleftrightarrow> list_all2 (\<lambda>x y. f x = Inr y) xs ys"
proof (induction xs arbitrary: ys)
  case Nil
  then show ?case by auto
next
  case (Cons x xs)
  show ?case
    by (cases ys) (auto simp: and_then_def Cons.IH[symmetric] split: sum.splits)
qed

lemma collect_length: "collect f xs = Inr ys \<Longrightarrow> length ys = length xs"
  by (simp add: collect_eq_Inr list_all2_lengthD)

lemma and_then_eq_Inr: "and_then m f = Inr y \<longleftrightarrow> (\<exists>x. m = Inr x \<and> f x = Inr y)"
  by (cases m) (simp_all add: and_then_def)

lemma extract_example_drop_patterns:
  assumes "extract_example ex = Inr f"
  shows "extract_example (ex\<lparr>ex_patterns := None\<rparr>) = Inr (f\<lparr>f_patterns := replicate 8 0\<rparr>)"
  using assms unfolding extract_example_def and_then_eq_Inr
  by (auto simp: extract_patterns_def simp del: collect.simps)

lemma extract_example_widths:
  assumes "extract_example ex = Inr f"
  shows "length (f_context f) = 5 \<and> length (f_indicators f) = 5"
proof -
  from assms obtain x i where
    x: "collect (dict_item (ex_context ex))
          [''liquidity'', ''marketCap'', ''holders'', ''age'', ''volume24h''] = Inr x"
    and i: "collect (dict_item (ex_indicators ex))
          [''rsi'', ''macd'', ''ema_fast'', ''ema_slow'', ''bbands_width''] = Inr i"
    and f: "f_context f = x" "f_indicators f = i"
    unfolding extract_example_def and_then_eq_Inr
    by (auto simp del: collect.simps)
  from collect_length[OF x] collect_length[OF i] f show ?thesis by simp
qed

lemma extracted_widths:
  assumes "list_all2 (\<lambda>x y. extract_example x = Inr y) exs fs"
  shows "\<forall>f\<in>set fs. length (f_context f) = 5 \<and> length (f_indicators f) = 5"
  using assms by (induction rule: list_all2_induct) (auto dest: extract_example_widths)

lemma fit_transform_result:
  assumes "fit_transform fit X = Inr (s, Y)"
  shows "fit X = Inr s \<and> Y = map (transform_row s) X \<and> X \<noteq> []
     \<and> (\<forall>row\<in>set X. length row = n_features_in s)
     \<and> length (location s) = n_features_in s \<and> length (scale s) = n_features_in s"
  using assms
  by (auto simp: fit_transform_def and_then_def transform_def list_all_iff
      split: sum.splits if_splits)

lemma transform_row_length:
  assumes "length row = n" "length (location s) = n" "length (scale s) = n"
  shows "length (transform_row s row) = n"
  using assms by (simp add: transform_row_def)

lemma stack_candles_Inr:
  "stack_candles Xs = Inr Ys \<longleftrightarrow> Ys = Xs \<and> stack_candles Xs = Inr Xs"
  by (auto simp: stack_candles_def split: if_splits)

lemma stack_candles_ex:
  "(\<exists>Xs. stack_candles A = Inr Xs \<and> P Xs) \<longleftrightarrow> (stack_candles A = Inr A \<and> P A)"
  by (metis stack_candles_Inr)

lemma assemble_eq_Inr:
  "assemble exs = Inr a \<longleftrightarrow>
     (\<exists>fs. collect extract_example exs = Inr fs
      \<and> stack_candles (map f_candles fs) = Inr (map f_candles fs)
      \<and> (\<exists>cs Xc. scale_candles (map f_candles fs) = Inr (cs, Xc)
      \<and> (\<exists>xs Xx. fit_transform standard_fit (map f_context fs) = Inr (xs, Xx)
      \<and> (\<exists>ins Xi. fit_transform standard_fit (map f_indicators fs) = Inr (ins, Xi)
      \<and> a = \<lparr>candle_scaler = cs, context_scaler = xs, indicator_scaler = ins,
              X_candles_scaled = Xc,
              X_combined = map (\<lambda>(c, i, p). c @ i @ p)
                 (zip Xx (zip Xi (map f_patterns fs))),
              y_stack = map (\<lambda>f. [f_profitable f, f_max_profit f, f_rug_risk f]) fs,
              y_profitable = map f_profitable fs\<rparr>))))"
  by (simp only: assemble_def and_then_eq_Inr split_paired_Ex prod.case sum.inject
      eq_commute[of _ a] stack_candles_ex)

lemma map_update_same: "g v = g (xs ! i) \<Longrightarrow> map g (xs[i := v]) = map g xs"
  by (cases "i < length xs") (simp_all add: map_update list_update_same_conv list_update_beyond)

lemma scaled_rows:
  assumes ft: "fit_transform fit X = Inr (s, Y)"
    and w: "\<forall>row\<in>set X. length row = n"
    and i: "i < length X"
  shows "length Y = length X \<and> length (Y ! i) = n"
proof -
  note r = fit_transform_result[OF ft]
  from r i have "X ! i \<in> set X" by simp
  with r w have n: "n_features_in s = n" by metis
  from r have Y: "Y = map (transform_row s) X" by simp
  with i have "Y ! i = transform_row s (X ! i)" by simp
  moreover have "length (X ! i) = n" using w i by simp
  ultimately show ?thesis
    using r n Y by (simp add: transform_row_length)
qed

text \<open>
  C9. Whatever a dataset that assembles holds at position \<open>i\<close>, the same dataset with
  the \<^verbatim>\<open>patterns\<close> member of example \<open>i\<close> absent assembles too; the combined vector of
  that example has length 18, its last eight entries are zero, and its first ten (the
  scaled context and indicators) are unchanged. In particular an example whose
  \<^verbatim>\<open>patterns\<close> member is absent is assembled with an eight-entry zero vector.
\<close>

theorem missing_patterns_zero_vector:
  assumes asm: "assemble exs = Inr a" and i: "i < length exs"
  shows "\<exists>a'. assemble (exs[i := (exs ! i)\<lparr>ex_patterns := None\<rparr>]) = Inr a'
     \<and> length (X_combined a' ! i) = 18
     \<and> drop 10 (X_combined a' ! i) = replicate 8 0
     \<and> take 10 (X_combined a' ! i) = take 10 (X_combined a ! i)"
proof -
  from asm[unfolded assemble_eq_Inr] obtain fs cs Xc xs Xx ins Xi where
    fs: "collect extract_example exs = Inr fs"
    and st: "stack_candles (map f_candles fs) = Inr (map f_candles fs)"
    and sc: "scale_candles (map f_candles fs) = Inr (cs, Xc)"
    and fx: "fit_transform standard_fit (map f_context fs) = Inr (xs, Xx)"
    and fi: "fit_transform standard_fit (map f_indicators fs) = Inr (ins, Xi)"
    and a_eq: "a = \<lparr>candle_scaler = cs, context_scaler = xs, indicator_scaler = ins,
              X_candles_scaled = Xc,
              X_combined = map (\<lambda>(c, i, p). c @ i @ p)
                 (zip Xx (zip Xi (map f_patterns fs))),
              y_stack = map (\<lambda>f. [f_profitable f, f_max_profit f, f_rug_risk f]) fs,
              y_profitable = map f_profitable fs\<rparr>"
    by (elim exE conjE)
  have a: "X_combined a = map (\<lambda>(c, i, p). c @ i @ p) (zip Xx (zip Xi (map f_patterns fs)))"
    by (simp add: a_eq)
  define fs' where "fs' = fs[i := (fs ! i)\<lparr>f_patterns := replicate 8 0\<rparr>]"
  let ?exs' = "exs[i := (exs ! i)\<lparr>ex_patterns := None\<rparr>]"
  let ?a' = "\<lparr>candle_scaler = cs, context_scaler = xs, indicator_scaler = ins,
              X_candles_scaled = Xc,
              X_combined = map (\<lambda>(c, i, p). c @ i @ p)
                 (zip Xx (zip Xi (map f_patterns fs'))),
              y_stack = map (\<lambda>f. [f_profitable f, f_max_profit f, f_rug_risk f]) fs',
              y_profitable = map f_profitable fs'\<rparr>"
  have all2: "list_all2 (\<lambda>x y. extract_example x = Inr y) exs fs"
    using fs by (simp add: collect_eq_Inr)
  then have len: "length fs = length exs" by (simp add: list_all2_lengthD)
  have ei: "extract_example (exs ! i) = Inr (fs ! i)"
    using list_all2_nthD[OF all2 i] by simp
  have fs': "collect extract_example ?exs' = Inr fs'"
    unfolding collect_eq_Inr fs'_def
    using all2 extract_example_drop_patterns[OF ei] by (rule list_all2_update_cong)
  have same: "map f_candles fs' = map f_candles fs" "map f_context fs' = map f_context fs"
    "map f_indicators fs' = map f_indicators fs"
    by (simp_all add: fs'_def map_update_same)
  have asm': "assemble ?exs' = Inr ?a'"
    unfolding assemble_eq_Inr
  proof (rule exI[of _ fs'], intro conjI)
    show "collect extract_example ?exs' = Inr fs'" by (rule fs')
    show "stack_candles (map f_candles fs') = Inr (map f_candles fs')"
      unfolding same by (rule st)
    show "\<exists>cs' Xc'. scale_candles (map f_candles fs') = Inr (cs', Xc') \<and>
       (\<exists>xs' Xx'. fit_transform standard_fit (map f_context fs') = Inr (xs', Xx') \<and>
       (\<exists>ins' Xi'. fit_transform standard_fit (map f_indicators fs') = Inr (ins', Xi') \<and>
          ?a' = \<lparr>candle_scaler = cs', context_scaler = xs', indicator_scaler = ins',
              X_candles_scaled = Xc',
              X_combined = map (\<lambda>(c, i, p). c @ i @ p)
                 (zip Xx' (zip Xi' (map f_patterns fs'))),
              y_stack = map (\<lambda>f. [f_profitable f, f_max_profit f, f_rug_risk f]) fs',
              y_profitable = map f_profitable fs'\<rparr>))"
      unfolding same using sc fx fi by (intro exI conjI) (assumption | rule refl)+
  qed
  have w: "\<forall>row\<in>set (map f_context fs). length row = 5"
    "\<forall>row\<in>set (map f_indicators fs). length row = 5"
    using extracted_widths[OF all2] by simp_all
  have ifs: "i < length (map f_context fs)" "i < length (map f_indicators fs)"
    using i len by simp_all
  note lx = scaled_rows[OF fx w(1) ifs(1)] and li = scaled_rows[OF fi w(2) ifs(2)]
  have pi: "f_patterns (fs' ! i) = replicate 8 0"
    using i len by (simp add: fs'_def)
  have row': "X_combined ?a' ! i = Xx ! i @ Xi ! i @ replicate 8 0"
    using lx li i len pi by (simp add: fs'_def)
  have row: "X_combined a ! i = Xx ! i @ Xi ! i @ f_patterns (fs ! i)"
    using lx li i len by (simp add: a)
  have "length (X_combined ?a' ! i) = 18" "drop 10 (X_combined ?a' ! i) = replicate 8 0"
    "take 10 (X_combined ?a' ! i) = take 10 (X_combined a ! i)"
    unfolding row row' using lx li by simp_all
  with asm' show ?thesis by blast
qed

lemma column_mean_sum: "col \<noteq> [] \<Longrightarrow> column_mean col * real (length col) = sum_list col"
  by (simp add: column_mean_def)

lemma standard_fit_mean:
  assumes fit: "standard_fit X = Inr s" and j: "j < length (hd X)"
  shows "mean s ! j * real (length X) = (\<Sum>row\<leftarrow>X. row ! j)"
proof -
  from fit have ne: "X \<noteq> []" and m: "mean s = map column_mean (columns X)"
    by (auto simp: standard_fit_def split: if_splits)
  from j have "mean s ! j = column_mean (map (\<lambda>row. row ! j) X)"
    by (simp add: m columns_def)
  with ne column_mean_sum[of "map (\<lambda>row. row ! j) X"] show ?thesis by simp
qed

lemma and_then_Inr: "and_then (Inr x) f = f x"
  by (simp add: and_then_def)

lemma take_rows_ok:
  "(\<And>i. i \<in> set idx \<Longrightarrow> i < length xs) \<Longrightarrow> take_rows xs idx = Inr (map ((!) xs) idx)"
  unfolding take_rows_def by (rule collect_Inr) simp

lemma assemble_lengths:
  assumes "assemble exs = Inr a"
  shows "length (X_candles_scaled a) = length exs \<and> length (X_combined a) = length exs
     \<and> length (y_stack a) = length exs \<and> length (y_profitable a) = length exs"
proof -
  from assms[unfolded assemble_eq_Inr] obtain fs cs Xc xs Xx ins Xi where
    fs: "collect extract_example exs = Inr fs"
    and sc: "scale_candles (map f_candles fs) = Inr (cs, Xc)"
    and fx: "fit_transform standard_fit (map f_context fs) = Inr (xs, Xx)"
    and fi: "fit_transform standard_fit (map f_indicators fs) = Inr (ins, Xi)"
    and a_eq: "a = \<lparr>candle_scaler = cs, context_scaler = xs, indicator_scaler = ins,
              X_candles_scaled = Xc,
              X_combined = map (\<lambda>(c, i, p). c @ i @ p)
                 (zip Xx (zip Xi (map f_patterns fs))),
              y_stack = map (\<lambda>f. [f_profitable f, f_max_profit f, f_rug_risk f]) fs,
              y_profitable = map f_profitable fs\<rparr>"
    by (elim exE conjE)
  have len: "length fs = length exs" using fs by (rule collect_length)
  have "length Xc = length fs"
    using sc by (auto simp: scale_candles_def Let_def and_then_eq_Inr)
  moreover have "length Xx = length fs" "length Xi = length fs"
    using fit_transform_result[OF fx] fit_transform_result[OF fi] by simp_all
  ultimately show ?thesis by (simp add: a_eq len)
qed

lemma fit_shape:
  "X \<noteq> [] \<Longrightarrow> \<exists>s. robust_fit X = Inr s \<and> n_features_in s = length (hd X)
      \<and> length (location s) = length (hd X) \<and> length (scale s) = length (hd X)"
  "X \<noteq> [] \<Longrightarrow> \<exists>s. standard_fit X = Inr s \<and> n_features_in s = length (hd X)
      \<and> length (location s) = length (hd X) \<and> length (scale s) = length (hd X)"
  by (simp_all add: robust_fit_def standard_fit_def location_def columns_def)

lemma fit_transform_ok:
  assumes "X \<noteq> []" and "\<forall>row\<in>set X. length row = n"
    and "fit X = Inr s" and "n_features_in s = n"
    and "length (location s) = n" and "length (scale s) = n"
  shows "fit_transform fit X = Inr (s, map (transform_row s) X)"
  using assms by (simp add: fit_transform_def and_then_def transform_def list_all_iff)

lemma load_ok:
  assumes a: "assemble exs = Inr a"
    and s1: "tts [0..<length exs] 0.3 (y_profitable a) = Inr (tr, tmp)"
    and s2: "tts tmp 0.5 (map ((!) (y_profitable a)) tmp) = Inr (va, te)"
    and r: "\<And>i. i \<in> set tr \<union> set tmp \<union> set va \<union> set te \<Longrightarrow> i < length exs"
  shows "\<exists>d. load_and_preprocess tts exs = Inr d \<and> scalers_fitted d = a
     \<and> train_idx d = tr \<and> val_idx d = va \<and> test_idx d = te"
proof -
  note l = assemble_lengths[OF a]
  have t: "take_rows (y_profitable a) idx = Inr (map ((!) (y_profitable a)) idx)"
    "take_rows (y_stack a) idx = Inr (map ((!) (y_stack a)) idx)"
    "take_rows (X_candles_scaled a) idx = Inr (map ((!) (X_candles_scaled a)) idx)"
    "take_rows (X_combined a) idx = Inr (map ((!) (X_combined a)) idx)"
    if "set idx \<subseteq> set tr \<union> set tmp \<union> set va \<union> set te" for idx
    using that r l by (auto intro!: take_rows_ok)
  have sub: "set tr \<subseteq> set tr \<union> set tmp \<union> set va \<union> set te"
    "set tmp \<subseteq> set tr \<union> set tmp \<union> set va \<union> set te"
    "set va \<subseteq> set tr \<union> set tmp \<union> set va \<union> set te"
    "set te \<subseteq> set tr \<union> set tmp \<union> set va \<union> set te"
    by auto
  have s2': "tts tmp (5 / 10) (map ((!) (y_profitable a)) tmp) = Inr (va, te)"
    using s2 by simp
  have "load_and_preprocess tts exs =
      Inr \<lparr>scalers_fitted = a, train_idx = tr, val_idx = va, test_idx = te,
           X_train = (map ((!) (X_candles_scaled a)) tr, map ((!) (X_combined a)) tr),
           X_val = (map ((!) (X_candles_scaled a)) va, map ((!) (X_combined a)) va),
           X_test = (map ((!) (X_candles_scaled a)) te, map ((!) (X_combined a)) te),
           y_train = map ((!) (y_stack a)) tr, y_val = map ((!) (y_stack a)) va,
           y_test = map ((!) (y_stack a)) te\<rparr>"
    by (simp only: load_and_preprocess_def a and_then_Inr Let_def l s1 s2' prod.case
        t[OF sub(1)] t[OF sub(2)] t[OF sub(3)] t[OF sub(4)] pick_def)
  then show ?thesis by simp
qed

lemma extract_sample: "extract_example (sample_example liq) = Inr (sample_features liq)"
  by (simp add: extract_example_def sample_example_def sample_features_def and_then_def
      dict_item_def extract_patterns_def flag_def number_def)

lemma collect_samples:
  "collect extract_example (map sample_example ls) = Inr (map sample_features ls)"
  by (simp add: collect_eq_Inr list_all2_map1 list_all2_map2 extract_sample list_all2_same)

lemma assemble_samples:
  assumes "ls \<noteq> []"
  shows "\<exists>a. assemble (map sample_example ls) = Inr a
     \<and> standard_fit (map f_context (map sample_features ls)) = Inr (context_scaler a)"
proof -
  let ?fs = "map sample_features ls"
  obtain l ls' where ls: "ls = l # ls'" using assms by (cases ls) auto
  have st: "stack_candles (map f_candles ?fs) = Inr (map f_candles ?fs)"
    by (simp add: ls stack_candles_def list_all_iff sample_features_def)
  let ?X = "concat (map f_candles ?fs)"
  have X: "?X \<noteq> []" "\<forall>row\<in>set ?X. length row = 5" "length (hd ?X) = 5"
    by (auto simp: ls sample_features_def)
  from fit_shape(1)[OF X(1)] obtain cs where cs: "robust_fit ?X = Inr cs"
    "n_features_in cs = 5" "length (location cs) = 5" "length (scale cs) = 5"
    unfolding X(3) by blast
  note ftc = fit_transform_ok[where fit = robust_fit, OF X(1,2) cs]
  have sc: "scale_candles (map f_candles ?fs) =
      Inr (cs, map (\<lambda>i. take (length (hd (map f_candles ?fs)))
                          (drop (i * length (hd (map f_candles ?fs)))
                             (map (transform_row cs) ?X)))
                 [0..<length (map f_candles ?fs)])"
    by (simp only: scale_candles_def Let_def ftc and_then_Inr prod.case)
  let ?C = "map f_context ?fs"
  have C: "?C \<noteq> []" "\<forall>row\<in>set ?C. length row = 5" "length (hd ?C) = 5"
    by (auto simp: ls sample_features_def)
  from fit_shape(2)[OF C(1)] obtain xs where xs: "standard_fit ?C = Inr xs"
    "n_features_in xs = 5" "length (location xs) = 5" "length (scale xs) = 5"
    unfolding C(3) by blast
  note ftx = fit_transform_ok[where fit = standard_fit, OF C(1,2) xs]
  let ?I = "map f_indicators ?fs"
  have I: "?I \<noteq> []" "\<forall>row\<in>set ?I. length row = 5" "length (hd ?I) = 5"
    by (auto simp: ls sample_features_def)
  from fit_shape(2)[OF I(1)] obtain ins where ins: "standard_fit ?I = Inr ins"
    "n_features_in ins = 5" "length (location ins) = 5" "length (scale ins) = 5"
    unfolding I(3) by blast
  note fti = fit_transform_ok[where fit = standard_fit, OF I(1,2) ins]
  let ?a = "\<lparr>candle_scaler = cs, context_scaler = xs, indicator_scaler = ins,
      X_candles_scaled =
        map (\<lambda>i. take (length (hd (map f_candles ?fs)))
                    (drop (i * length (hd (map f_candles ?fs))) (map (transform_row cs) ?X)))
          [0..<length (map f_candles ?fs)],
      X_combined = map (\<lambda>(c, i, p). c @ i @ p)
        (zip (map (transform_row xs) ?C)
           (zip (map (transform_row ins) ?I) (map f_patterns ?fs))),
      y_stack = map (\<lambda>f. [f_profitable f, f_max_profit f, f_rug_risk f]) ?fs,
      y_profitable = map f_profitable ?fs\<rparr>"
  have "assemble (map sample_example ls) = Inr ?a"
    unfolding assemble_eq_Inr
    using collect_samples[of ls] st sc ftx fti by (intro exI conjI) (assumption | rule refl)+
  moreover have "standard_fit ?C = Inr (context_scaler ?a)"
    using xs(1) by simp
  ultimately show ?thesis by (intro exI[of _ ?a] conjI)
qed

lemma upt_4: "[0..<4] = [0, 1, 2, 3::nat]"
  by code_simp

lemma load_samples:
  assumes len: "length ls = 4"
  shows "\<exists>d. load_and_preprocess half_split (map sample_example ls) = Inr d
     \<and> train_idx d = [0, 1] \<and> val_idx d = [2] \<and> test_idx d = [3]
     \<and> mean (context_scaler (scalers_fitted d)) ! 0 * 4 = sum_list ls"
proof -
  from len obtain l ls' where ls: "ls = l # ls'" by (cases ls) auto
  then have "ls \<noteq> []" by simp
  from assemble_samples[OF this] obtain a where a: "assemble (map sample_example ls) = Inr a"
    and fit: "standard_fit (map f_context (map sample_features ls)) = Inr (context_scaler a)"
    by blast
  have s1: "half_split [0..<length (map sample_example ls)] 0.3 (y_profitable a)
      = Inr ([0, 1], [2, 3])"
    by (simp add: half_split_def len upt_4)
  have s2: "half_split [2, 3] 0.5 (map ((!) (y_profitable a)) [2, 3]) = Inr ([2], [3])"
    by (simp add: half_split_def)
  have "\<exists>d. load_and_preprocess half_split (map sample_example ls) = Inr d
     \<and> scalers_fitted d = a \<and> train_idx d = [0, 1] \<and> val_idx d = [2] \<and> test_idx d = [3]"
    using a s1 s2 by (rule load_ok) (auto simp: len)
  then obtain d where d: "load_and_preprocess half_split (map sample_example ls) = Inr d"
    "scalers_fitted d = a" "train_idx d = [0, 1]" "val_idx d = [2]" "test_idx d = [3]"
    by blast
  have "0 < length (hd (map f_context (map sample_features ls)))"
    by (simp add: ls sample_features_def)
  from standard_fit_mean[OF fit this]
  have "mean (context_scaler a) ! 0 * 4 = sum_list ls"
    by (simp add: len sample_features_def o_def)
  with d show ?thesis by blast
qed

text \<open>
  C2, as stated, fails: the scalers are fitted before the dataset is split. Two
  datasets of four examples that differ only in the liquidity of the last example, which
  the split puts in the test set (the training set is examples 0 and 1 in both), get
  different fitted context means, 5/2 and 7/2.
\<close>

theorem fit_sees_test_examples:
  "map_sum id (\<lambda>d. (train_idx d, val_idx d, test_idx d,
                     mean (context_scaler (scalers_fitted d)) ! 0))
     (load_and_preprocess half_split (map sample_example [1, 2, 3, 4]))
     = Inr ([0, 1], [2], [3], 5 / 2)
   \<and> map_sum id (\<lambda>d. (train_idx d, val_idx d, test_idx d,
                     mean (context_scaler (scalers_fitted d)) ! 0))
     (load_and_preprocess half_split (map sample_example [1, 2, 3, 8]))
     = Inr ([0, 1], [2], [3], 7 / 2)"
proof -
  from load_samples[of "[1, 2, 3, 4]"] obtain d1 where
    d1: "load_and_preprocess half_split (map sample_example [1, 2, 3, 4]) = Inr d1"
    "train_idx d1 = [0, 1]" "val_idx d1 = [2]" "test_idx d1 = [3]"
    "mean (context_scaler (scalers_fitted d1)) ! 0 * 4 = sum_list [1, 2, 3, 4]"
    by auto
  from load_samples[of "[1, 2, 3, 8]"] obtain d2 where
    d2: "load_and_preprocess half_split (map sample_example [1, 2, 3, 8]) = Inr d2"
    "train_idx d2 = [0, 1]" "val_idx d2 = [2]" "test_idx d2 = [3]"
    "mean (context_scaler (scalers_fitted d2)) ! 0 * 4 = sum_list [1, 2, 3, 8]"
    by auto
  from d1(5) have m1: "mean (context_scaler (scalers_fitted d1)) ! 0 = 5 / 2" by simp
  from d2(5) have m2: "mean (context_scaler (scalers_fitted d2)) ! 0 = 7 / 2" by simp
  show ?thesis
    unfolding d1(1) d2(1) by (simp add: d1 d2 m1 m2)
qed

text \<open>
  C2, amended. For every dataset that \<^verbatim>\<open>load_and_preprocess\<close> processes, whatever the
  split, the three scalers are fitted on all examples of the dataset (the candles of
  every example, flattened; the context and the indicators of every example): each
  fitted mean times the number of examples is the sum of the feature over the whole
  dataset.
\<close>

theorem fit_before_split:
  assumes "load_and_preprocess tts exs = Inr d"
  shows "\<exists>fs. collect extract_example exs = Inr fs \<and> length fs = length exs
     \<and> robust_fit (concat (map f_candles fs)) = Inr (candle_scaler (scalers_fitted d))
     \<and> standard_fit (map f_context fs) = Inr (context_scaler (scalers_fitted d))
     \<and> standard_fit (map f_indicators fs) = Inr (indicator_scaler (scalers_fitted d))
     \<and> (\<forall>j<5. mean (context_scaler (scalers_fitted d)) ! j * real (length exs)
                 = (\<Sum>f\<leftarrow>fs. f_context f ! j))
     \<and> (\<forall>j<5. mean (indicator_scaler (scalers_fitted d)) ! j * real (length exs)
                 = (\<Sum>f\<leftarrow>fs. f_indicators f ! j))"
proof -
  from assms have asm: "assemble exs = Inr (scalers_fitted d)"
    by (auto simp: load_and_preprocess_def and_then_eq_Inr Let_def)
  from asm[unfolded assemble_eq_Inr] obtain fs cs Xc xs Xx ins Xi where
    fs: "collect extract_example exs = Inr fs"
    and sc: "scale_candles (map f_candles fs) = Inr (cs, Xc)"
    and fx: "fit_transform standard_fit (map f_context fs) = Inr (xs, Xx)"
    and fi: "fit_transform standard_fit (map f_indicators fs) = Inr (ins, Xi)"
    and a_eq: "scalers_fitted d = \<lparr>candle_scaler = cs, context_scaler = xs,
              indicator_scaler = ins, X_candles_scaled = Xc,
              X_combined = map (\<lambda>(c, i, p). c @ i @ p)
                 (zip Xx (zip Xi (map f_patterns fs))),
              y_stack = map (\<lambda>f. [f_profitable f, f_max_profit f, f_rug_risk f]) fs,
              y_profitable = map f_profitable fs\<rparr>"
    by (elim exE conjE)
  have a: "candle_scaler (scalers_fitted d) = cs" "context_scaler (scalers_fitted d) = xs"
      "indicator_scaler (scalers_fitted d) = ins"
    by (simp_all add: a_eq)
  have all2: "list_all2 (\<lambda>x y. extract_example x = Inr y) exs fs"
    using fs by (simp add: collect_eq_Inr)
  then have len: "length fs = length exs" by (simp add: list_all2_lengthD)
  from sc obtain Y where "fit_transform robust_fit (concat (map f_candles fs)) = Inr (cs, Y)"
    unfolding scale_candles_def Let_def and_then_eq_Inr by auto
  then have rc: "robust_fit (concat (map f_candles fs)) = Inr cs"
    by (simp add: fit_transform_result)
  note rx = fit_transform_result[OF fx] and ri = fit_transform_result[OF fi]
  from rx have ne: "fs \<noteq> []" by auto
  then have "hd fs \<in> set fs" by simp
  with extracted_widths[OF all2] ne
  have hw: "length (hd (map f_context fs)) = 5" "length (hd (map f_indicators fs)) = 5"
    by (simp_all add: hd_map)
  have "mean xs ! j * real (length exs) = (\<Sum>f\<leftarrow>fs. f_context f ! j)" if "j < 5" for j
    using standard_fit_mean[of "map f_context fs" xs j] rx hw that len
    by (simp add: o_def)
  moreover
  have "mean ins ! j * real (length exs) = (\<Sum>f\<leftarrow>fs. f_indicators f ! j)" if "j < 5" for j
    using standard_fit_mean[of "map f_indicators fs" ins j] ri hw that len
    by (simp add: o_def)
  ultimately show ?thesis
    using fs len rc rx ri a by auto
qed

text \<open>C2, amended, at a dataset of four examples and the half-and-half splitter.\<close>

theorem fit_before_split_witness:
  "\<exists>d fs. load_and_preprocess half_split (map sample_example [1, 2, 3, 4]) = Inr d
     \<and> collect extract_example (map sample_example [1, 2, 3, 4]) = Inr fs
     \<and> length fs = length (map sample_example [1, 2, 3, 4])
     \<and> robust_fit (concat (map f_candles fs)) = Inr (candle_scaler (scalers_fitted d))
     \<and> standard_fit (map f_context fs) = Inr (context_scaler (scalers_fitted d))
     \<and> standard_fit (map f_indicators fs) = Inr (indicator_scaler (scalers_fitted d))
     \<and> (\<forall>j<5. mean (context_scaler (scalers_fitted d)) ! j
                   * real (length (map sample_example [1, 2, 3, 4]))
                 = (\<Sum>f\<leftarrow>fs. f_context f ! j))
     \<and> (\<forall>j<5. mean (indicator_scaler (scalers_fitted d)) ! j
                   * real (length (map sample_example [1, 2, 3, 4]))
                 = (\<Sum>f\<leftarrow>fs. f_indicators f ! j))"
proof -
  from load_samples[of "[1, 2, 3, 4]"] obtain d where
    d: "load_and_preprocess half_split (map sample_example [1, 2, 3, 4]) = Inr d"
    by auto
  from fit_before_split[OF d] d show ?thesis by blast
qed

text \<open>C9, at a dataset of two examples without a \<^verbatim>\<open>patterns\<close> member.\<close>

theorem missing_patterns_zero_vector_witness:
  "\<exists>a a'. assemble (map sample_example [1, 2]) = Inr a
     \<and> assemble ((map sample_example [1, 2])
          [0 := (map sample_example [1, 2] ! 0)\<lparr>ex_patterns := None\<rparr>]) = Inr a'
     \<and> length (X_combined a' ! 0) = 18
     \<and> drop 10 (X_combined a' ! 0) = replicate 8 0
     \<and> take 10 (X_combined a' ! 0) = take 10 (X_combined a ! 0)"
proof -
  from assemble_samples[of "[1, 2]"] obtain a where
    a: "assemble (map sample_example [1, 2]) = Inr a" by auto
  have i: "0 < length (map sample_example [1, 2])" by simp
  from missing_patterns_zero_vector[OF a i] a show ?thesis by blast
qed

end
